theory Spec2Isabelle
  imports Main
begin

section \<open>Python values used by the grants fetcher\<close>

text \<open>
  Exceptions of the source are values. \<open>RequestException\<close> is what the HTTP layer
  raises (transport failure, non-2xx status, undecodable body); the others are the
  built-in exceptions the operations of \<open>app.py\<close> can raise.
\<close>

datatype exn =
    RequestException string
  | TypeError
  | KeyError
  | ValueError
  | FileNotFoundError
  | PermissionError
  | IsADirectoryError
  | OSError

text \<open>
  A range argument (\<open>year_range\<close>, \<open>dollar_range\<close>) is a pair of optional integers.
  \<open>main\<close> builds it as a Python tuple; \<open>json.load\<close> gives a two-element list back for
  the array a tuple was dumped as. Python compares a tuple and a list as different, so the
  two shapes are kept apart.
\<close>

datatype 'a pair_val = Tuple2 'a 'a | List2 'a 'a

fun unpack2 :: "'a pair_val \<Rightarrow> 'a \<times> 'a" where
  "unpack2 (Tuple2 a b) = (a, b)"
| "unpack2 (List2 a b) = (a, b)"

text \<open>Values stored in the query-parameter dictionary: integers and strings.\<close>

datatype pval = PInt int | PStr string

subsection \<open>\<open>str\<close> on integers, \<open>join\<close>, \<open>range\<close>, dictionary assignment\<close>

definition digit_char :: "nat \<Rightarrow> char" where
  "digit_char d = ''0123456789'' ! d"

fun str_nat :: "nat \<Rightarrow> string" where
  "str_nat n = (if n < 10 then [digit_char n] else str_nat (n div 10) @ [digit_char (n mod 10)])"

declare str_nat.simps [simp del]

definition str_int :: "int \<Rightarrow> string" where
  "str_int i = (if i < 0 then CHR ''-'' # str_nat (nat (- i)) else str_nat (nat i))"

fun join :: "string \<Rightarrow> string list \<Rightarrow> string" where
  "join sep [] = []"
| "join sep [x] = x"
| "join sep (x # y # ys) = x @ sep @ join sep (y # ys)"

text \<open>
  \<open>range(a, b)\<close> with both arguments integers is the list \<open>a, a+1, ..., b-1\<close>
  (empty when \<open>b \<le> a\<close>); \<open>None\<close> as an argument raises \<open>TypeError\<close>. The second
  argument of the source is \<open>end_year + 1\<close>, which raises \<open>TypeError\<close> itself
  when \<open>end_year\<close> is \<open>None\<close>.
\<close>

definition py_range :: "int \<Rightarrow> int \<Rightarrow> int list" where
  "py_range a b = [a..b - 1]"

definition year_codes :: "int option \<Rightarrow> int option \<Rightarrow> exn + string" where
  "year_codes start_year end_year =
     (case end_year of
        None \<Rightarrow> Inl TypeError
      | Some e \<Rightarrow>
          (case start_year of
             None \<Rightarrow> Inl TypeError
           | Some s \<Rightarrow> Inr (join '','' (map str_int (py_range s (e + 1))))))"

text \<open>
  A Python dictionary keeps insertion order: \<open>d[k] = v\<close> replaces the value of a key
  that is present, in place, and appends the pair otherwise.
\<close>

fun dict_set :: "(string \<times> 'v) list \<Rightarrow> string \<Rightarrow> 'v \<Rightarrow> (string \<times> 'v) list" where
  "dict_set [] k v = [(k, v)]"
| "dict_set ((k', v') # d) k v = (if k' = k then (k, v) # d else (k', v') # dict_set d k v)"

section \<open>\<open>GrantFetcher._build_query_params\<close>\<close>

text \<open>
  The body of the method, statement by statement: the dictionary literal
  (\<open>base_params\<close>), then one definition for each \<open>if\<close> statement, applied in the
  order of the source. Only the year statement can raise.
\<close>

type_synonym params = "(string \<times> pval) list"

definition base_params :: "int \<Rightarrow> params" where
  "base_params page_number =
     [(''page'', PInt page_number),
      (''include_gov'', PStr ''yes''),
      (''sort_by'', PStr ''year_issued''),
      (''sort_order'', PStr ''desc''),
      (''format'', PStr ''json'')]"

definition add_locations :: "string list \<Rightarrow> params \<Rightarrow> params" where
  "add_locations locations params =
     (if locations \<noteq> [] then
        dict_set (dict_set (dict_set params ''location'' (PStr (join '','' locations)))
                    ''geo_id_type'' (PStr ''geonameid''))
          ''location_type'' (PStr ''area_served'')
      else params)"

definition add_year :: "int option pair_val \<Rightarrow> params \<Rightarrow> exn + params" where
  "add_year year_range params =
     (case unpack2 year_range of (start_year, end_year) \<Rightarrow>
        if year_range \<noteq> Tuple2 None None then
          (case year_codes start_year end_year of
             Inl e \<Rightarrow> Inl e
           | Inr codes \<Rightarrow> Inr (dict_set params ''year'' (PStr codes)))
        else Inr params)"

definition add_codes :: "string \<Rightarrow> string list \<Rightarrow> params \<Rightarrow> params" where
  "add_codes key codes params =
     (if codes \<noteq> [] then dict_set params key (PStr (join '','' codes)) else params)"

definition add_amount :: "string \<Rightarrow> int option \<Rightarrow> params \<Rightarrow> params" where
  "add_amount key amt params =
     (case amt of None \<Rightarrow> params | Some a \<Rightarrow> dict_set params key (PInt a))"

definition build_query_params ::
  "int \<Rightarrow> int option pair_val \<Rightarrow> int option pair_val \<Rightarrow> string list \<Rightarrow> string list \<Rightarrow>
   string list \<Rightarrow> string list \<Rightarrow> exn + params" where
  "build_query_params page_number year_range dollar_range subjects populations locations
     support_strategies =
     (case unpack2 dollar_range of (min_amt, max_amt) \<Rightarrow>
        (case add_year year_range (add_locations locations (base_params page_number)) of
           Inl e \<Rightarrow> Inl e
         | Inr params \<Rightarrow>
             Inr (add_amount ''max_amt'' max_amt
                   (add_amount ''min_amt'' min_amt
                     (add_codes ''support'' support_strategies
                       (add_codes ''population'' populations
                         (add_codes ''subject'' subjects params)))))))"

section \<open>JSON values and the HTTP exchange\<close>

text \<open>
  The values \<open>response.json()\<close> and \<open>json.load\<close> return, and the values
  \<open>json.dump\<close> accepts: \<open>None\<close>, booleans, integers, floats (carried as their
  literal text: they are only passed through), strings, lists, tuples and dictionaries
  with string keys (in insertion order).
\<close>

datatype pyval =
    PyNone
  | PyBool bool
  | PyInt int
  | PyFloat string
  | PyStr string
  | PyList "pyval list"
  | PyTuple "pyval list"
  | PyDict "(string \<times> pyval) list"

text \<open>\<open>obj[key]\<close> with a string key: only a dictionary can answer.\<close>

fun py_getitem :: "pyval \<Rightarrow> string \<Rightarrow> exn + pyval" where
  "py_getitem (PyDict d) k = (case map_of d k of None \<Rightarrow> Inl KeyError | Some v \<Rightarrow> Inr v)"
| "py_getitem _ k = Inl TypeError"

fun starts_with :: "string \<Rightarrow> string \<Rightarrow> bool" where
  "starts_with s [] = True"
| "starts_with [] (c # k) = False"
| "starts_with (a # s) (c # k) = (a = c \<and> starts_with s k)"

fun is_substring :: "string \<Rightarrow> string \<Rightarrow> bool" where
  "is_substring k [] = (k = [])"
| "is_substring k (a # s) = (starts_with (a # s) k \<or> is_substring k s)"

text \<open>
  \<open>key in obj\<close> with a string key: a key of a dictionary, an element of a list or
  tuple, a substring of a string; the other values are not containers.
\<close>

fun py_contains :: "string \<Rightarrow> pyval \<Rightarrow> exn + bool" where
  "py_contains k (PyDict d) = Inr (map_of d k \<noteq> None)"
| "py_contains k (PyList xs) = Inr (PyStr k \<in> set xs)"
| "py_contains k (PyTuple xs) = Inr (PyStr k \<in> set xs)"
| "py_contains k (PyStr s) = Inr (is_substring k s)"
| "py_contains k _ = Inl TypeError"

text \<open>
  A string is its UTF-8 bytes, which is what \<open>quote_plus\<close> encodes. Its characters are
  the code points: a byte that is not a continuation byte (\<open>0x80\<close> to \<open>0xBF\<close>)
  together with the continuation bytes that follow it.
\<close>

definition is_continuation :: "char \<Rightarrow> bool" where
  "is_continuation c \<longleftrightarrow> 128 \<le> (of_char c :: nat) \<and> (of_char c :: nat) < 192"

function utf8_chars :: "string \<Rightarrow> string list" where
  "utf8_chars [] = []"
| "utf8_chars (c # cs) =
     (c # takeWhile is_continuation cs) # utf8_chars (dropWhile is_continuation cs)"
  by pat_completeness auto
termination
  by (relation "measure length") (auto simp: length_dropWhile_le less_Suc_eq_le)

text \<open>
  The items \<open>list.extend\<close> takes from its argument: the elements of a list or tuple,
  the characters of a string, the keys of a dictionary; the other values are not iterable.
\<close>

fun py_iter :: "pyval \<Rightarrow> exn + pyval list" where
  "py_iter (PyList xs) = Inr xs"
| "py_iter (PyTuple xs) = Inr xs"
| "py_iter (PyStr s) = Inr (map PyStr (utf8_chars s))"
| "py_iter (PyDict d) = Inr (map (\<lambda>kv. PyStr (fst kv)) d)"
| "py_iter _ = Inl TypeError"

subsection \<open>\<open>urllib.parse.urlencode\<close>\<close>

definition always_safe :: "char \<Rightarrow> bool" where
  "always_safe c \<longleftrightarrow>
     c \<in> set ''ABCDEFGHIJKLMNOPQRSTUVWXYZabcdefghijklmnopqrstuvwxyz0123456789_.-~''"

definition hex_char :: "nat \<Rightarrow> char" where
  "hex_char d = ''0123456789ABCDEF'' ! d"

definition quote_plus_char :: "char \<Rightarrow> string" where
  "quote_plus_char c =
     (if c = CHR '' '' then ''+''
      else if always_safe c then [c]
      else [CHR ''%'', hex_char (of_char c div 16), hex_char (of_char c mod 16)])"

definition quote_plus :: "string \<Rightarrow> string" where
  "quote_plus s = concat (map quote_plus_char s)"

fun py_str :: "pval \<Rightarrow> string" where
  "py_str (PInt i) = str_int i"
| "py_str (PStr s) = s"

definition urlencode :: "params \<Rightarrow> string" where
  "urlencode ps = join ''&'' (map (\<lambda>kv. quote_plus (fst kv) @ ''='' @ quote_plus (py_str (snd kv))) ps)"

section \<open>\<open>GrantFetcher.get_grants_transactions\<close>\<close>

text \<open>
  The network is a parameter: \<open>http\<close> maps the URL and the headers of a GET to what
  \<open>requests.get\<close>, \<open>raise_for_status\<close> and \<open>response.json()\<close> give for it, the
  decoded body or the exception raised. One call of \<open>fetch_grants\<close> asks for each page
  once and the page number is part of the URL, so a function of the URL describes any
  server during that call.

  The log is the list of the records the code hands to \<open>logging\<close>, one constructor per
  call site.
\<close>

type_synonym transport = "string \<Rightarrow> (string \<times> string) list \<Rightarrow> exn + pyval"

datatype log_entry =
    ErrorGettingTransactions exn
  | NoGrantsOnPage int
  | ErrorOnPage int exn

definition base_url :: string where
  "base_url = ''https://api.candid.org/grants/v1/transactions''"

fun is_request_exception :: "exn \<Rightarrow> bool" where
  "is_request_exception (RequestException m) = True"
| "is_request_exception _ = False"

definition get_grants_transactions ::
  "transport \<Rightarrow> string \<Rightarrow> int \<Rightarrow> int option pair_val \<Rightarrow> int option pair_val \<Rightarrow> string list \<Rightarrow>
   string list \<Rightarrow> string list \<Rightarrow> string list \<Rightarrow> (exn + pyval) \<times> log_entry list" where
  "get_grants_transactions http api_key page_number year_range dollar_range subjects populations
     locations support_strategies =
     (case build_query_params page_number year_range dollar_range subjects populations locations
             support_strategies of
        Inl e \<Rightarrow> (Inl e, [])
      | Inr params \<Rightarrow>
          (let url = base_url @ ''?'' @ urlencode params;
               headers = [(''accept'', ''application/json''), (''Subscription-Key'', api_key)]
           in case http url headers of
                Inl e \<Rightarrow> (Inl e, if is_request_exception e then [ErrorGettingTransactions e] else [])
              | Inr body \<Rightarrow> (Inr body, [])))"

section \<open>\<open>GrantFetcher.fetch_grants\<close>\<close>

text \<open>
  The state of the loop: the accumulator \<open>all_grants\<close>, the log, and the page numbers
  handed to \<open>get_grants_transactions\<close> so far, in order. \<open>time.sleep\<close> changes none of
  them.
\<close>

record fetch_state =
  all_grants :: "pyval list"
  log :: "log_entry list"
  requested :: "int list"

text \<open>
  What the body of the \<open>try\<close> does with a decoded envelope: \<open>Inr (Some rows)\<close> when
  \<open>rows\<close> is there and is appended, \<open>Inr None\<close> when it is not (the informational
  branch), \<open>Inl e\<close> when one of the operations raises.
\<close>

definition page_rows :: "pyval \<Rightarrow> exn + pyval list option" where
  "page_rows grants_data =
     (case py_getitem grants_data ''data'' of
        Inl e \<Rightarrow> Inl e
      | Inr data \<Rightarrow>
          (case py_contains ''rows'' data of
             Inl e \<Rightarrow> Inl e
           | Inr False \<Rightarrow> Inr None
           | Inr True \<Rightarrow>
               (case py_getitem data ''rows'' of
                  Inl e \<Rightarrow> Inl e
                | Inr rows \<Rightarrow>
                    (case py_iter rows of Inl e \<Rightarrow> Inl e | Inr items \<Rightarrow> Inr (Some items)))))"

definition page_outcome :: "(exn + pyval) \<Rightarrow> exn + pyval list option" where
  "page_outcome r = (case r of Inl e \<Rightarrow> Inl e | Inr grants_data \<Rightarrow> page_rows grants_data)"

fun fetch_loop ::
  "(int \<Rightarrow> (exn + pyval) \<times> log_entry list) \<Rightarrow> int list \<Rightarrow> fetch_state \<Rightarrow> fetch_state" where
  "fetch_loop get [] st = st"
| "fetch_loop get (page_number # rest) st =
     (let st1 = st\<lparr>log := log st @ snd (get page_number),
                   requested := requested st @ [page_number]\<rparr>
      in case page_outcome (fst (get page_number)) of
           Inl e \<Rightarrow> st1\<lparr>log := log st1 @ [ErrorOnPage page_number e]\<rparr>
         | Inr (Some rows) \<Rightarrow> fetch_loop get rest (st1\<lparr>all_grants := all_grants st1 @ rows\<rparr>)
         | Inr None \<Rightarrow> fetch_loop get rest (st1\<lparr>log := log st1 @ [NoGrantsOnPage page_number]\<rparr>))"

definition fetch_grants ::
  "transport \<Rightarrow> string \<Rightarrow> int \<Rightarrow> int option pair_val \<Rightarrow> int option pair_val \<Rightarrow> string list \<Rightarrow>
   string list \<Rightarrow> string list \<Rightarrow> string list \<Rightarrow> fetch_state" where
  "fetch_grants http api_key num_pages year_range dollar_range subjects populations locations
     support_strategies =
     fetch_loop
       (\<lambda>page_number. get_grants_transactions http api_key page_number year_range dollar_range
          subjects populations locations support_strategies)
       (py_range 1 (num_pages + 1))
       \<lparr>all_grants = [], log = [], requested = []\<rparr>"

section \<open>Files\<close>

text \<open>
  \<open>json.dump\<close> writes lists and tuples alike as JSON arrays, and \<open>json.load\<close> reads
  an array as a list: \<open>json_value v\<close> is the value read back from the text written for
  \<open>v\<close>.
\<close>

fun json_value :: "pyval \<Rightarrow> pyval" where
  "json_value (PyList xs) = PyList (map json_value xs)"
| "json_value (PyTuple xs) = PyList (map json_value xs)"
| "json_value (PyDict d) = PyDict (map (map_prod id json_value) d)"
| "json_value v = v"

text \<open>
  A file holds either the text \<open>json.dump(v, f, indent=n)\<close> wrote, recorded as the value
  it decodes to and the indentation, or text that is not JSON. The file system is a map
  from paths to contents, with the paths that \<open>open(path, "w")\<close> accepts and, for a
  path it does not accept, the exception it raises (\<open>FileNotFoundError\<close> for a missing
  directory, \<open>PermissionError\<close>, \<open>IsADirectoryError\<close> or another \<open>OSError\<close>).
\<close>

datatype file_content = JsonText pyval nat | NotJson string

record file_system =
  files :: "string \<rightharpoonup> file_content"
  writable :: "string \<Rightarrow> bool"
  refusal :: "string \<Rightarrow> exn"

definition open_w_dump :: "file_system \<Rightarrow> string \<Rightarrow> pyval \<Rightarrow> nat \<Rightarrow> exn + file_system" where
  "open_w_dump fs path obj indent =
     (if writable fs path
      then Inr (fs\<lparr>files := (files fs)(path \<mapsto> JsonText (json_value obj) indent)\<rparr>)
      else Inl (refusal fs path))"

definition open_r_load :: "file_system \<Rightarrow> string \<Rightarrow> exn + pyval" where
  "open_r_load fs path =
     (case files fs path of
        None \<Rightarrow> Inl FileNotFoundError
      | Some (NotJson t) \<Rightarrow> Inl ValueError
      | Some (JsonText v n) \<Rightarrow> Inr v)"

text \<open>\<open>os.path.join\<close> of two components, on POSIX.\<close>

definition path_join :: "string \<Rightarrow> string \<Rightarrow> string" where
  "path_join a b =
     (if starts_with b ''/'' then b
      else if a = [] \<or> last a = CHR ''/'' then a @ b
      else a @ ''/'' @ b)"

section \<open>\<open>GrantFetcher.save_grants_to_file\<close>\<close>

definition output_file_name :: "string \<Rightarrow> int \<Rightarrow> int \<Rightarrow> string" where
  "output_file_name output_prefix page_start page_end =
     output_prefix @ ''_pages_'' @ str_int page_start @ ''-'' @ str_int page_end @ ''.json''"

definition save_grants_to_file ::
  "file_system \<Rightarrow> pyval list \<Rightarrow> string \<Rightarrow> int \<Rightarrow> int \<Rightarrow> exn + file_system" where
  "save_grants_to_file fs grants output_prefix page_start page_end =
     (let output_file = output_file_name output_prefix page_start page_end
      in open_w_dump fs output_file (PyDict [(''grants'', PyList grants)]) 2)"

section \<open>Saved searches\<close>

definition SAVED_SEARCHES_DIR :: string where
  "SAVED_SEARCHES_DIR = ''saved_searches''"

text \<open>
  Directories are not modelled: \<open>os.makedirs\<close> and \<open>open\<close> succeed together on
  the paths the file system accepts for writing.
\<close>

definition save_search_config :: "file_system \<Rightarrow> pyval \<Rightarrow> string \<Rightarrow> exn + file_system" where
  "save_search_config fs config search_name =
     (let config_file = path_join SAVED_SEARCHES_DIR (search_name @ ''.json'')
      in open_w_dump fs config_file config 2)"

definition load_search_config :: "file_system \<Rightarrow> string \<Rightarrow> exn + pyval" where
  "load_search_config fs search_name =
     (let config_file = path_join SAVED_SEARCHES_DIR (search_name @ ''.json'')
      in open_r_load fs config_file)"

section \<open>The menu actions of \<open>main\<close>\<close>

text \<open>
  The search parameters \<open>main\<close> keeps between menu choices, and the dictionary it
  builds from them to save a search.
\<close>

record search_state =
  year_range :: "int option pair_val"
  dollar_range :: "int option pair_val"
  subjects :: "string list"
  populations :: "string list"
  locations :: "string list"
  support_strategies :: "string list"
  output_prefix :: string

definition initial_search_state :: search_state where
  "initial_search_state =
     \<lparr>year_range = Tuple2 None None, dollar_range = Tuple2 None None, subjects = [],
      populations = [], locations = [], support_strategies = [], output_prefix = []\<rparr>"

fun opt_py :: "int option \<Rightarrow> pyval" where
  "opt_py None = PyNone"
| "opt_py (Some i) = PyInt i"

fun range_py :: "int option pair_val \<Rightarrow> pyval" where
  "range_py (Tuple2 a b) = PyTuple [opt_py a, opt_py b]"
| "range_py (List2 a b) = PyList [opt_py a, opt_py b]"

definition search_config_dict :: "search_state \<Rightarrow> pyval" where
  "search_config_dict st =
     PyDict
       [(''year_range'', range_py (year_range st)),
        (''dollar_range'', range_py (dollar_range st)),
        (''subjects'', PyList (map PyStr (subjects st))),
        (''populations'', PyList (map PyStr (populations st))),
        (''locations'', PyList (map PyStr (locations st))),
        (''support_strategies'', PyList (map PyStr (support_strategies st))),
        (''output_prefix'', PyStr (output_prefix st))]"

text \<open>
  Reading a Python value as a range argument of the builder: a tuple or a list of two
  optional integers. Other values are outside the annotated type.
\<close>

fun py_opt :: "pyval \<Rightarrow> int option option" where
  "py_opt PyNone = Some None"
| "py_opt (PyInt i) = Some (Some i)"
| "py_opt _ = None"

fun py_range_arg :: "pyval \<Rightarrow> int option pair_val option" where
  "py_range_arg (PyTuple [a, b]) =
     (case (py_opt a, py_opt b) of (Some x, Some y) \<Rightarrow> Some (Tuple2 x y) | _ \<Rightarrow> None)"
| "py_range_arg (PyList [a, b]) =
     (case (py_opt a, py_opt b) of (Some x, Some y) \<Rightarrow> Some (List2 x y) | _ \<Rightarrow> None)"
| "py_range_arg _ = None"

text \<open>
  Menu choice 3, after the first probe: fetch \<open>num_pages\<close> pages and save them, and
  the branch taken on the answer \<open>Y\<close>, which fetches \<open>additional_pages\<close> more and saves
  under the page range \<open>num_pages + 1\<close> to \<open>num_pages + additional_pages\<close>. The result
  carries the state of the call of \<open>fetch_grants\<close> made, the list \<open>grants\<close>, and the
  file system or the exception of the write.
\<close>

definition main_fetch ::
  "transport \<Rightarrow> string \<Rightarrow> file_system \<Rightarrow> search_state \<Rightarrow> int \<Rightarrow>
   fetch_state \<times> pyval list \<times> (exn + file_system)" where
  "main_fetch http api_key fs st num_pages =
     (let r = fetch_grants http api_key num_pages (year_range st) (dollar_range st) (subjects st)
                (populations st) (locations st) (support_strategies st);
          grants = all_grants r
      in (r, grants, save_grants_to_file fs grants (output_prefix st) 1 num_pages))"

definition main_fetch_more ::
  "transport \<Rightarrow> string \<Rightarrow> file_system \<Rightarrow> search_state \<Rightarrow> pyval list \<Rightarrow> int \<Rightarrow> int \<Rightarrow> int \<Rightarrow>
   fetch_state \<times> pyval list \<times> (exn + file_system)" where
  "main_fetch_more http api_key fs st grants num_pages total_pages additional_pages =
     (let remaining_pages = total_pages - num_pages
      in if remaining_pages > 0 then
           (let r = fetch_grants http api_key additional_pages (year_range st) (dollar_range st)
                      (subjects st) (populations st) (locations st) (support_strategies st);
                additional_grants = all_grants r;
                grants = grants @ additional_grants
            in (r, grants,
                save_grants_to_file fs grants (output_prefix st) (num_pages + 1)
                  (num_pages + additional_pages)))
         else (\<lparr>all_grants = [], log = [], requested = []\<rparr>, grants, Inr fs))"

section \<open>The builder on an explicit store\<close>

text \<open>
  Python passes the four code lists by reference, and \<open>params\<close> is a dictionary object
  that the method creates and then changes by item assignment. To say what the method
  does to the objects of the program, the method is given a second time on a store of
  objects: every address holds an object, and the addresses below \<open>next_addr\<close> are the
  ones allocated so far (the argument lists, and whatever else the program has created).
  The tuples and the page number are immutable and stay values.
\<close>

datatype obj = ListObj "string list" | DictObj params

record store =
  objs :: "nat \<Rightarrow> obj"
  next_addr :: nat

type_synonym 'a py = "store \<Rightarrow> (exn + 'a) \<times> store"



text \<open>\<open>target[k] = v\<close> with a string key: a list refuses it.\<close>

definition set_item :: "nat \<Rightarrow> string \<Rightarrow> pval \<Rightarrow> unit py" where
  "set_item target k v s =
     (case objs s target of
        DictObj d \<Rightarrow> (Inr (), s\<lparr>objs := (objs s)(target := DictObj (dict_set d k v))\<rparr>)
      | ListObj xs \<Rightarrow> (Inl TypeError, s))"









section \<open>Notions used in the statements\<close>

text \<open>
  The year ranges on which the builder returns: the tuple \<open>(None, None)\<close>, and a tuple
  or list with both bounds set.
\<close>

fun year_range_ok :: "int option pair_val \<Rightarrow> bool" where
  "year_range_ok (Tuple2 None None) = True"
| "year_range_ok (Tuple2 (Some s) (Some e)) = True"
| "year_range_ok (List2 (Some s) (Some e)) = True"
| "year_range_ok _ = False"

text \<open>
  The page fetcher of one call of \<open>fetch_grants\<close>: \<open>get_grants_transactions\<close> with the
  filter of the call, as a function of the page number.
\<close>

abbreviation page_fetcher ::
  "transport \<Rightarrow> string \<Rightarrow> int option pair_val \<Rightarrow> int option pair_val \<Rightarrow> string list \<Rightarrow>
   string list \<Rightarrow> string list \<Rightarrow> string list \<Rightarrow> int \<Rightarrow> (exn + pyval) \<times> log_entry list" where
  "page_fetcher http api_key yr dr su po lo ss \<equiv>
     (\<lambda>page_number. get_grants_transactions http api_key page_number yr dr su po lo ss)"

text \<open>
  For a page on which the body of the loop does not raise (\<open>page_ok\<close>): the rows it
  appends to the accumulator (\<open>page_items\<close>) and the records it adds to the log
  (\<open>page_notes\<close>).
\<close>

definition page_ok :: "(int \<Rightarrow> (exn + pyval) \<times> log_entry list) \<Rightarrow> int \<Rightarrow> bool" where
  "page_ok get p = (case page_outcome (fst (get p)) of Inl e \<Rightarrow> False | Inr r \<Rightarrow> True)"

definition page_items :: "(int \<Rightarrow> (exn + pyval) \<times> log_entry list) \<Rightarrow> int \<Rightarrow> pyval list" where
  "page_items get p = (case page_outcome (fst (get p)) of Inr (Some rows) \<Rightarrow> rows | _ \<Rightarrow> [])"

definition page_notes :: "(int \<Rightarrow> (exn + pyval) \<times> log_entry list) \<Rightarrow> int \<Rightarrow> log_entry list" where
  "page_notes get p =
     snd (get p) @ (case page_outcome (fst (get p)) of Inr None \<Rightarrow> [NoGrantsOnPage p] | _ \<Rightarrow> [])"

text \<open>Values without tuples: what \<open>response.json()\<close> and \<open>json.load\<close> return.\<close>

fun tuple_free :: "pyval \<Rightarrow> bool" where
  "tuple_free (PyTuple xs) = False"
| "tuple_free (PyList xs) = (\<forall>x\<in>set xs. tuple_free x)"
| "tuple_free (PyDict d) = (\<forall>kv\<in>set d. tuple_free (snd kv))"
| "tuple_free v = True"

subsection \<open>Concrete servers and files for the examples\<close>

text \<open>
  Three servers: one answers every request with a page whose only row is the URL asked
  for, one does the same but answers the request for page 2 of the unfiltered search with
  HTTP 500, one answers every request with an envelope that has no \<open>rows\<close>.
\<close>

definition http_echo :: transport where
  "http_echo url headers = Inr (PyDict [(''data'', PyDict [(''rows'', PyList [PyStr url])])])"

definition http_500_on_page_2 :: transport where
  "http_500_on_page_2 url headers =
     (if url = ''https://api.candid.org/grants/v1/transactions?page=2&include_gov=yes&sort_by=year_issued&sort_order=desc&format=json''
      then Inl (RequestException ''500 Server Error'')
      else Inr (PyDict [(''data'', PyDict [(''rows'', PyList [PyStr url])])]))"

definition http_no_rows :: transport where
  "http_no_rows url headers =
     Inr (PyDict [(''data'', PyDict [(''total_hits'', PyInt 0), (''num_pages'', PyInt 0)])])"

definition page_url :: "string \<Rightarrow> string" where
  "page_url n =
     ''https://api.candid.org/grants/v1/transactions?page='' @ n @
     ''&include_gov=yes&sort_by=year_issued&sort_order=desc&format=json''"

definition empty_fs :: file_system where
  "empty_fs =
     \<lparr>files = Map.empty, writable = (\<lambda>path. True), refusal = (\<lambda>path. PermissionError)\<rparr>"

section \<open>Properties of the query-parameter builder\<close>

lemma map_of_dict_set:
  "map_of (dict_set d k v) k' = (if k' = k then Some v else map_of d k')"
  by (induction d) auto

lemma map_of_add_codes:
  "map_of (add_codes key codes params) k =
     (if k = key \<and> codes \<noteq> [] then Some (PStr (join '','' codes)) else map_of params k)"
  by (simp add: add_codes_def map_of_dict_set)

lemma map_of_add_amount:
  "map_of (add_amount key amt params) k =
     (if k = key \<and> amt \<noteq> None then Some (PInt (the amt)) else map_of params k)"
  by (cases amt) (simp_all add: add_amount_def map_of_dict_set)

lemma map_of_add_locations_other:
  "k \<notin> {''location'', ''geo_id_type'', ''location_type''} \<Longrightarrow>
   map_of (add_locations lo params) k = map_of params k"
  by (simp add: add_locations_def map_of_dict_set)

lemma add_year_other:
  "add_year yr params = Inr ps \<Longrightarrow> k \<noteq> ''year'' \<Longrightarrow> map_of ps k = map_of params k"
  by (cases yr) (auto simp: add_year_def map_of_dict_set split: if_splits sum.splits)

lemma add_year_returns_iff: "(\<exists>ps. add_year yr params = Inr ps) \<longleftrightarrow> year_range_ok yr"
  by (cases yr rule: year_range_ok.cases)
    (simp_all add: add_year_def year_codes_def split: option.splits)

lemma add_year_raises: "\<not> year_range_ok yr \<Longrightarrow> add_year yr params = Inl TypeError"
  by (cases yr rule: year_range_ok.cases)
    (simp_all add: add_year_def year_codes_def split: option.splits)

lemma build_returns_iff:
  "(\<exists>ps. build_query_params p yr dr su po lo ss = Inr ps) \<longleftrightarrow> year_range_ok yr"
proof -
  have "(\<exists>ps. build_query_params p yr dr su po lo ss = Inr ps) \<longleftrightarrow>
        (\<exists>ps. add_year yr (add_locations lo (base_params p)) = Inr ps)"
    by (auto simp: build_query_params_def split: prod.splits sum.splits)
  then show ?thesis
    by (simp add: add_year_returns_iff)
qed

lemma build_raises:
  assumes "\<not> year_range_ok yr"
  shows "build_query_params p yr dr su po lo ss = Inl TypeError"
  using add_year_raises[OF assms]
  by (simp add: build_query_params_def split: prod.splits)

lemma build_lookup_base:
  assumes "build_query_params p yr dr su po lo ss = Inr ps"
    and "k \<notin> {''location'', ''geo_id_type'', ''location_type'', ''year'', ''subject'',
               ''population'', ''support'', ''min_amt'', ''max_amt''}"
  shows "map_of ps k = map_of (base_params p) k"
  using assms
  by (auto simp: build_query_params_def map_of_add_codes map_of_add_amount
        map_of_add_locations_other dest!: add_year_other[where k = k]
        split: prod.splits sum.splits)

lemma build_lookup_year:
  assumes "build_query_params p yr dr su po lo ss = Inr ps"
  shows "\<exists>ps'. add_year yr (add_locations lo (base_params p)) = Inr ps' \<and>
               map_of ps ''year'' = map_of ps' ''year''"
  using assms
  by (auto simp: build_query_params_def map_of_add_codes map_of_add_amount
        split: prod.splits sum.splits)

lemma build_lookup_amounts:
  assumes "build_query_params p yr dr su po lo ss = Inr ps"
  shows "map_of ps ''min_amt'' = map_option PInt (fst (unpack2 dr))"
    and "map_of ps ''max_amt'' = map_option PInt (snd (unpack2 dr))"
proof -
  obtain ps' where a: "add_year yr (add_locations lo (base_params p)) = Inr ps'"
    and b: "ps = add_amount ''max_amt'' (snd (unpack2 dr))
                  (add_amount ''min_amt'' (fst (unpack2 dr))
                    (add_codes ''support'' ss
                      (add_codes ''population'' po (add_codes ''subject'' su ps'))))"
    using assms by (auto simp: build_query_params_def split: prod.splits sum.splits)
  have "map_of ps' ''min_amt'' = None" "map_of ps' ''max_amt'' = None"
    using add_year_other[OF a, of "''min_amt''"] add_year_other[OF a, of "''max_amt''"]
    by (simp_all add: map_of_add_locations_other base_params_def)
  then show "map_of ps ''min_amt'' = map_option PInt (fst (unpack2 dr))"
    and "map_of ps ''max_amt'' = map_option PInt (snd (unpack2 dr))"
    by (auto simp: b map_of_add_codes map_of_add_amount)
qed

lemma py_range_upto: "py_range s (e + 1) = [s..e]"
  by (simp add: py_range_def)

lemma add_year_both:
  "add_year (Tuple2 (Some s) (Some e)) params =
     Inr (dict_set params ''year'' (PStr (join '','' (map str_int [s..e]))))"
  by (simp add: add_year_def year_codes_def py_range_upto)

lemma add_year_neither: "add_year (Tuple2 None None) params = Inr params"
  by (simp add: add_year_def)

lemma build_year_both:
  "\<exists>ps. build_query_params p (Tuple2 (Some s) (Some e)) dr su po lo ss = Inr ps \<and>
        map_of ps ''year'' = Some (PStr (join '','' (map str_int [s..e])))"
proof -
  obtain ps where a: "build_query_params p (Tuple2 (Some s) (Some e)) dr su po lo ss = Inr ps"
    using build_returns_iff[of p "Tuple2 (Some s) (Some e)" dr su po lo ss] by auto
  from build_lookup_year[OF a] have
    "map_of ps ''year'' = Some (PStr (join '','' (map str_int [s..e])))"
    by (simp add: add_year_both map_of_dict_set)
  with a show ?thesis by blast
qed

lemma build_year_neither:
  "\<exists>ps. build_query_params p (Tuple2 None None) dr su po lo ss = Inr ps \<and>
        map_of ps ''year'' = None"
proof -
  obtain ps where a: "build_query_params p (Tuple2 None None) dr su po lo ss = Inr ps"
    using build_returns_iff[of p "Tuple2 None None" dr su po lo ss] by auto
  from build_lookup_year[OF a] have "map_of ps ''year'' = None"
    by (simp add: add_year_neither map_of_add_locations_other base_params_def)
  with a show ?thesis by blast
qed

lemma years_2020_2022: "join '','' (map str_int [2020..2022]) = ''2020,2021,2022''"
  by code_simp

subsection \<open>The fixed keys\<close>

text \<open>
  Claim C7. For every page number and every filter, the mapping the builder produces
  has \<open>page\<close> equal to the page number given, \<open>include_gov = "yes"\<close>,
  \<open>sort_by = "year_issued"\<close>, \<open>sort_order = "desc"\<close> and \<open>format = "json"\<close>,
  whatever the filter fields are. The builder produces a mapping for every year range
  that is \<open>(None, None)\<close> or has both bounds set.
\<close>

theorem build_query_params_fixed_keys:
  "(year_range_ok yr \<longrightarrow> (\<exists>ps. build_query_params p yr dr su po lo ss = Inr ps)) \<and>
   (\<forall>ps. build_query_params p yr dr su po lo ss = Inr ps \<longrightarrow>
      map_of ps ''page'' = Some (PInt p) \<and>
      map_of ps ''include_gov'' = Some (PStr ''yes'') \<and>
      map_of ps ''sort_by'' = Some (PStr ''year_issued'') \<and>
      map_of ps ''sort_order'' = Some (PStr ''desc'') \<and>
      map_of ps ''format'' = Some (PStr ''json''))"
proof (intro conjI allI impI)
  assume "year_range_ok yr"
  then show "\<exists>ps. build_query_params p yr dr su po lo ss = Inr ps"
    by (simp add: build_returns_iff)
next
  fix ps
  assume a: "build_query_params p yr dr su po lo ss = Inr ps"
  show "map_of ps ''page'' = Some (PInt p)"
    using build_lookup_base[OF a, of "''page''"] by (simp add: base_params_def)
  show "map_of ps ''include_gov'' = Some (PStr ''yes'')"
    using build_lookup_base[OF a, of "''include_gov''"] by (simp add: base_params_def)
  show "map_of ps ''sort_by'' = Some (PStr ''year_issued'')"
    using build_lookup_base[OF a, of "''sort_by''"] by (simp add: base_params_def)
  show "map_of ps ''sort_order'' = Some (PStr ''desc'')"
    using build_lookup_base[OF a, of "''sort_order''"] by (simp add: base_params_def)
  show "map_of ps ''format'' = Some (PStr ''json'')"
    using build_lookup_base[OF a, of "''format''"] by (simp add: base_params_def)
qed

theorem build_query_params_fixed_keys_witness:
  "year_range_ok (Tuple2 (Some 2020) (Some 2022)) \<and>
   (\<exists>ps. build_query_params 7 (Tuple2 (Some 2020) (Some 2022)) (Tuple2 (Some 25000) None)
           [''SJ02'', ''SJ05''] [] [''4671654''] [''UA''] = Inr ps \<and>
      map_of ps ''page'' = Some (PInt 7) \<and>
      map_of ps ''include_gov'' = Some (PStr ''yes'') \<and>
      map_of ps ''sort_by'' = Some (PStr ''year_issued'') \<and>
      map_of ps ''sort_order'' = Some (PStr ''desc'') \<and>
      map_of ps ''format'' = Some (PStr ''json''))"
  using build_query_params_fixed_keys[of "Tuple2 (Some 2020) (Some 2022)" 7
      "Tuple2 (Some 25000) None" "[''SJ02'', ''SJ05'']" "[]" "[''4671654'']" "[''UA'']"]
  by auto

subsection \<open>The year codes\<close>

text \<open>
  Claim C4. For a year range with both bounds set and \<open>start \<le> end\<close>, the builder
  returns a mapping whose \<open>year\<close> is the comma-joined decimal codes of every integer
  from \<open>start\<close> to \<open>end\<close> inclusive, one code per year; the range \<open>(2020, 2022)\<close>
  gives \<open>year = "2020,2021,2022"\<close>, and \<open>(None, None)\<close> gives no \<open>year\<close> key.
\<close>

theorem build_query_params_year_codes:
  "(s \<le> e \<longrightarrow>
      (\<exists>ps. build_query_params p (Tuple2 (Some s) (Some e)) dr su po lo ss = Inr ps \<and>
            map_of ps ''year'' = Some (PStr (join '','' (map str_int [s..e]))))) \<and>
   (\<exists>ps. build_query_params p (Tuple2 (Some 2020) (Some 2022)) dr su po lo ss = Inr ps \<and>
         map_of ps ''year'' = Some (PStr ''2020,2021,2022'')) \<and>
   (\<exists>ps. build_query_params p (Tuple2 None None) dr su po lo ss = Inr ps \<and>
         map_of ps ''year'' = None)"
proof (intro conjI impI)
  show "\<exists>ps. build_query_params p (Tuple2 (Some s) (Some e)) dr su po lo ss = Inr ps \<and>
            map_of ps ''year'' = Some (PStr (join '','' (map str_int [s..e])))"
    by (rule build_year_both)
  show "\<exists>ps. build_query_params p (Tuple2 (Some 2020) (Some 2022)) dr su po lo ss = Inr ps \<and>
         map_of ps ''year'' = Some (PStr ''2020,2021,2022'')"
    using build_year_both[of p 2020 2022 dr su po lo ss] unfolding years_2020_2022 .
  show "\<exists>ps. build_query_params p (Tuple2 None None) dr su po lo ss = Inr ps \<and>
         map_of ps ''year'' = None"
    by (rule build_year_neither)
qed

theorem build_query_params_year_codes_witness:
  "(1999::int) \<le> 2001 \<and>
   (\<exists>ps. build_query_params 1 (Tuple2 (Some 1999) (Some 2001)) (Tuple2 None None) [] [] [] [] =
           Inr ps \<and>
         map_of ps ''year'' = Some (PStr ''1999,2000,2001''))"
proof -
  have y: "join '','' (map str_int [1999..2001]) = ''1999,2000,2001''"
    by code_simp
  have h: "(1999::int) \<le> 2001"
    by simp
  have "\<exists>ps. build_query_params 1 (Tuple2 (Some 1999) (Some 2001)) (Tuple2 None None) [] [] [] [] =
           Inr ps \<and>
         map_of ps ''year'' = Some (PStr (join '','' (map str_int [1999..2001])))"
    using build_query_params_year_codes[of 1999 2001 1 "Tuple2 None None" "[]" "[]" "[]" "[]",
        THEN conjunct1] h
    by (rule mp)
  then show ?thesis
    unfolding y using h by simp
qed

subsection \<open>The dollar range\<close>

text \<open>
  Claim C2 says that a dollar range \<open>(None, m)\<close> yields neither \<open>min_amt\<close> nor
  \<open>max_amt\<close>. The builder tests the two bounds one after the other, each on its own:
  for the unfiltered search with \<open>dollar_range = (None, 100)\<close> it returns a mapping
  with \<open>max_amt = 100\<close>.
\<close>

theorem max_amt_without_min_counterexample:
  "build_query_params 1 (Tuple2 None None) (Tuple2 None (Some 100)) [] [] [] [] =
     Inr [(''page'', PInt 1), (''include_gov'', PStr ''yes''), (''sort_by'', PStr ''year_issued''),
          (''sort_order'', PStr ''desc''), (''format'', PStr ''json''), (''max_amt'', PInt 100)]"
  by (simp add: build_query_params_def add_year_def add_locations_def base_params_def
      add_codes_def add_amount_def)

text \<open>
  Claim C2, as the code has it. For every filter whose dollar range is \<open>(None, m)\<close>
  (and whose year range lets the builder return), the mapping has no \<open>min_amt\<close> key and
  has \<open>max_amt = m\<close>: the presence of the maximum alone decides the emission of
  \<open>max_amt\<close>.
\<close>

theorem build_query_params_max_without_min:
  assumes "year_range_ok yr"
  shows "\<exists>ps. build_query_params p yr (Tuple2 None (Some m)) su po lo ss = Inr ps \<and>
              map_of ps ''min_amt'' = None \<and> map_of ps ''max_amt'' = Some (PInt m)"
proof -
  obtain ps where a: "build_query_params p yr (Tuple2 None (Some m)) su po lo ss = Inr ps"
    using assms build_returns_iff[of p yr "Tuple2 None (Some m)" su po lo ss] by auto
  from build_lookup_amounts[OF a] a show ?thesis by simp
qed

theorem build_query_params_max_without_min_witness:
  "year_range_ok (Tuple2 (Some 2020) (Some 2022)) \<and>
   (\<exists>ps. build_query_params 1 (Tuple2 (Some 2020) (Some 2022)) (Tuple2 None (Some 100))
           [''SJ02''] [] [] [] = Inr ps \<and>
         map_of ps ''min_amt'' = None \<and> map_of ps ''max_amt'' = Some (PInt 100))"
  using build_query_params_max_without_min[of "Tuple2 (Some 2020) (Some 2022)" 1 100
      "[''SJ02'']" "[]" "[]" "[]"]
  by simp

subsection \<open>Year ranges with one bound\<close>

text \<open>
  Claim C10. The builder is not total: for every filter whose year range is \<open>(y, None)\<close>
  the test against \<open>(None, None)\<close> lets the year branch run and \<open>end_year + 1\<close> raises
  \<open>TypeError\<close>. For a tuple \<open>(a, b)\<close> the builder returns a mapping exactly when both
  bounds are absent or both are set.
\<close>

theorem build_query_params_half_set_year_raises:
  "build_query_params p (Tuple2 (Some y) None) dr su po lo ss = Inl TypeError \<and>
   ((\<exists>ps. build_query_params p (Tuple2 a b) dr su po lo ss = Inr ps) \<longleftrightarrow>
      (a = None \<longleftrightarrow> b = None))"
proof
  show "build_query_params p (Tuple2 (Some y) None) dr su po lo ss = Inl TypeError"
    by (rule build_raises) simp
  show "(\<exists>ps. build_query_params p (Tuple2 a b) dr su po lo ss = Inr ps) \<longleftrightarrow>
      (a = None \<longleftrightarrow> b = None)"
    unfolding build_returns_iff by (cases a; cases b) simp_all
qed

subsection \<open>Determinism and error conditions\<close>


text \<open>
  The method on the store against the method on values. Each statement, run on a store
  where \<open>params\<close> is a dictionary and the list read is another object, does to that
  dictionary what the value-level step does, and leaves every other object alone.
\<close>

lemma set_item_dict:
  assumes "objs s pa = DictObj d"
  shows "set_item pa k v s = (Inr (), s\<lparr>objs := (objs s)(pa := DictObj (dict_set d k v))\<rparr>)"
  using assms by (simp add: set_item_def)









section \<open>Properties of the pagination loop\<close>

text \<open>
  The pages asked for are always an initial part of \<open>1, ..., num_pages\<close>
  (\<open>fetch_grants_requested\<close>): the loop starts at page 1 and stops early only by
  \<open>break\<close>.
\<close>

lemma fetch_loop_ok_prefix:
  assumes "\<forall>p\<in>set ps. page_ok get p"
  shows "fetch_loop get (ps @ rest) st =
         fetch_loop get rest
           (st\<lparr>all_grants := all_grants st @ concat (map (page_items get) ps),
               log := log st @ concat (map (page_notes get) ps),
               requested := requested st @ ps\<rparr>)"
  using assms
proof (induction ps arbitrary: st)
  case Nil
  then show ?case by simp
next
  case (Cons p ps)
  from Cons.prems have ok: "page_ok get p" and rest: "\<forall>q\<in>set ps. page_ok get q"
    by simp_all
  from ok obtain r where r: "page_outcome (fst (get p)) = Inr r"
    by (auto simp: page_ok_def split: sum.splits)
  show ?case
  proof (cases r)
    case None
    with r show ?thesis
      by (simp add: Cons.IH[OF rest] page_items_def page_notes_def Let_def)
  next
    case (Some rows)
    with r show ?thesis
      by (simp add: Cons.IH[OF rest] page_items_def page_notes_def Let_def)
  qed
qed

lemma fetch_loop_raise:
  assumes "page_outcome (fst (get p)) = Inl e"
  shows "fetch_loop get (p # rest) st =
         st\<lparr>log := log st @ snd (get p) @ [ErrorOnPage p e], requested := requested st @ [p]\<rparr>"
  using assms by (cases st) (simp add: Let_def)

lemma fetch_loop_no_rows:
  assumes "page_outcome (fst (get p)) = Inr None"
  shows "fetch_loop get (p # rest) st =
         fetch_loop get rest
           (st\<lparr>log := log st @ snd (get p) @ [NoGrantsOnPage p], requested := requested st @ [p]\<rparr>)"
  using assms by (cases st) (simp add: Let_def)

lemma fetch_loop_requested:
  "\<exists>qs rest. ps = qs @ rest \<and> requested (fetch_loop get ps st) = requested st @ qs"
proof (induction ps arbitrary: st)
  case Nil
  then show ?case by simp
next
  case (Cons p ps)
  show ?case
  proof (cases "page_outcome (fst (get p))")
    case (Inl e)
    then have "p # ps = [p] @ ps \<and>
               requested (fetch_loop get (p # ps) st) = requested st @ [p]"
      by (simp add: Let_def)
    then show ?thesis by blast
  next
    case (Inr r)
    obtain st2 where step: "fetch_loop get (p # ps) st = fetch_loop get ps st2"
      and req: "requested st2 = requested st @ [p]"
      using Inr by (cases r) (simp_all add: Let_def)
    from Cons.IH[of st2] obtain qs rest where
      "ps = qs @ rest" "requested (fetch_loop get ps st2) = requested st2 @ qs"
      by blast
    then have "p # ps = (p # qs) @ rest \<and>
               requested (fetch_loop get (p # ps) st) = requested st @ (p # qs)"
      unfolding step by (simp add: req)
    then show ?thesis by blast
  qed
qed

lemma fetch_grants_requested:
  "\<exists>qs rest. [1..num_pages] = qs @ rest \<and>
     requested (fetch_grants http api_key num_pages yr dr su po lo ss) = qs"
  using fetch_loop_requested[of "[1..num_pages]" "page_fetcher http api_key yr dr su po lo ss"
      "\<lparr>all_grants = [], log = [], requested = []\<rparr>"]
  by (simp add: fetch_grants_def py_range_def)

lemma pages_split:
  assumes "1 \<le> k" "k \<le> n"
  shows "py_range 1 (n + 1) = [1..k - 1] @ k # [k + 1..n]"
  using upto_split3[OF assms] by (simp add: py_range_def)

lemma pages_before: "set [1..k - 1] = {1..<k}"
  by auto

lemma get_grants_transactions_success_log:
  "fst (get_grants_transactions http api_key p yr dr su po lo ss) = Inr body \<Longrightarrow>
   snd (get_grants_transactions http api_key p yr dr su po lo ss) = []"
  by (auto simp: get_grants_transactions_def Let_def split: sum.splits)

subsection \<open>Failure of a page\<close>

text \<open>
  Claim C3. If the page fetcher raises on page \<open>k\<close> of the requested pages
  \<open>1, ..., num_pages\<close>, the pages before it having gone through, the loop logs the
  error for page \<open>k\<close> and stops: the pages asked for are exactly \<open>1, ..., k\<close>, and the
  result is exactly the rows taken from the pages before \<open>k\<close>. The function returns a
  state in every case; no exception leaves it.
\<close>

theorem fetch_grants_stops_at_failing_page:
  assumes "1 \<le> k" and "k \<le> num_pages"
    and "\<forall>p\<in>{1..<k}. page_ok (page_fetcher http api_key yr dr su po lo ss) p"
    and "fst (get_grants_transactions http api_key k yr dr su po lo ss) = Inl e"
  shows "fetch_grants http api_key num_pages yr dr su po lo ss =
           \<lparr>all_grants = concat (map (page_items (page_fetcher http api_key yr dr su po lo ss))
                                   [1..k - 1]),
            log = concat (map (page_notes (page_fetcher http api_key yr dr su po lo ss))
                            [1..k - 1])
                  @ snd (get_grants_transactions http api_key k yr dr su po lo ss)
                  @ [ErrorOnPage k e],
            requested = [1..k]\<rparr>"
proof -
  let ?get = "page_fetcher http api_key yr dr su po lo ss"
  have ok: "\<forall>p\<in>set [1..k - 1]. page_ok ?get p"
    using assms(3) by (simp only: pages_before)
  have bad: "page_outcome (fst (?get k)) = Inl e"
    using assms(4) by (simp add: page_outcome_def)
  have k: "[1..k] = [1..k - 1] @ [k]"
    using assms(1) by (rule upto_rec2)
  show ?thesis
    unfolding fetch_grants_def pages_split[OF assms(1,2)] fetch_loop_ok_prefix[OF ok]
      fetch_loop_raise[where get = ?get and p = k, OF bad]
    by (simp add: k)
qed

subsection \<open>A page without rows\<close>

text \<open>
  Claim C5. If the envelope decoded for page \<open>k\<close> has a \<open>data\<close> field that lacks a
  \<open>rows\<close> entry, the loop treats the page as empty and not as an error: it appends
  nothing to the accumulator, records the informational note for page \<open>k\<close>, and goes on
  with the pages \<open>k + 1, ..., num_pages\<close>.
\<close>

theorem fetch_grants_page_without_rows:
  assumes "1 \<le> k" and "k \<le> num_pages"
    and "\<forall>p\<in>{1..<k}. page_ok (page_fetcher http api_key yr dr su po lo ss) p"
    and "fst (get_grants_transactions http api_key k yr dr su po lo ss) = Inr grants_data"
    and "py_getitem grants_data ''data'' = Inr data"
    and "py_contains ''rows'' data = Inr False"
  shows "fetch_grants http api_key num_pages yr dr su po lo ss =
           fetch_loop (page_fetcher http api_key yr dr su po lo ss) [k + 1..num_pages]
             \<lparr>all_grants = concat (map (page_items (page_fetcher http api_key yr dr su po lo ss))
                                     [1..k - 1]),
              log = concat (map (page_notes (page_fetcher http api_key yr dr su po lo ss))
                              [1..k - 1])
                    @ [NoGrantsOnPage k],
              requested = [1..k]\<rparr>"
proof -
  let ?get = "page_fetcher http api_key yr dr su po lo ss"
  have ok: "\<forall>p\<in>set [1..k - 1]. page_ok ?get p"
    using assms(3) by (simp only: pages_before)
  have none: "page_outcome (fst (?get k)) = Inr None"
    using assms(4,5,6) by (simp add: page_outcome_def page_rows_def)
  have quiet: "snd (?get k) = []"
    using assms(4) by (rule get_grants_transactions_success_log)
  have k: "[1..k] = [1..k - 1] @ [k]"
    using assms(1) by (rule upto_rec2)
  show ?thesis
    unfolding fetch_grants_def pages_split[OF assms(1,2)] fetch_loop_ok_prefix[OF ok]
      fetch_loop_no_rows[where get = ?get and p = k, OF none]
    by (simp add: k quiet)
qed

lemma get_500_page_1:
  "get_grants_transactions http_500_on_page_2 ''key'' 1 (Tuple2 None None) (Tuple2 None None)
     [] [] [] [] =
   (Inr (PyDict [(''data'', PyDict [(''rows'', PyList [PyStr (page_url ''1'')])])]), [])"
  by code_simp

lemma get_500_page_2:
  "get_grants_transactions http_500_on_page_2 ''key'' 2 (Tuple2 None None) (Tuple2 None None)
     [] [] [] [] =
   (Inl (RequestException ''500 Server Error''),
    [ErrorGettingTransactions (RequestException ''500 Server Error'')])"
  by code_simp

theorem fetch_grants_stops_at_failing_page_witness:
  "(1::int) \<le> 2 \<and> (2::int) \<le> 3 \<and>
   page_ok (page_fetcher http_500_on_page_2 ''key'' (Tuple2 None None) (Tuple2 None None)
              [] [] [] []) 1 \<and>
   fst (get_grants_transactions http_500_on_page_2 ''key'' 2 (Tuple2 None None)
          (Tuple2 None None) [] [] [] []) = Inl (RequestException ''500 Server Error'') \<and>
   fetch_grants http_500_on_page_2 ''key'' 3 (Tuple2 None None) (Tuple2 None None) [] [] [] [] =
     \<lparr>all_grants = [PyStr (page_url ''1'')],
      log = [ErrorGettingTransactions (RequestException ''500 Server Error''),
             ErrorOnPage 2 (RequestException ''500 Server Error'')],
      requested = [1, 2]\<rparr>"
proof -
  let ?get = "page_fetcher http_500_on_page_2 ''key'' (Tuple2 None None) (Tuple2 None None)
                [] [] [] []"
  have rows1: "page_outcome (fst (?get 1)) = Inr (Some [PyStr (page_url ''1'')])"
    by (simp add: get_500_page_1 page_outcome_def page_rows_def)
  have rows1': "page_outcome (Inr (PyDict [(''data'', PyDict [(''rows'',
                    PyList [PyStr (page_url ''1'')])])])) = Inr (Some [PyStr (page_url ''1'')])"
    by (simp add: page_outcome_def page_rows_def)
  have h1: "(1::int) \<le> 2" and h2: "(2::int) \<le> 3"
    by simp_all
  have h3: "\<forall>p\<in>{1..<2}. page_ok ?get p"
  proof
    fix p :: int
    assume "p \<in> {1..<2}"
    then have "p = 1" by auto
    then show "page_ok ?get p"
      by (simp add: page_ok_def rows1)
  qed
  have h4: "fst (?get 2) = Inl (RequestException ''500 Server Error'')"
    by (simp add: get_500_page_2)
  have one: "[1..2 - 1] = [1::int]" and two: "[1..2] = [1, 2::int]"
    by (simp_all add: upto.simps)
  show ?thesis
    using h1 h2 h3 h4 fetch_grants_stops_at_failing_page[OF h1 h2 h3 h4]
    by (simp add: one two page_items_def page_notes_def rows1' get_500_page_1 get_500_page_2)
qed

lemma get_no_rows:
  "get_grants_transactions http_no_rows ''key'' p (Tuple2 None None) (Tuple2 None None)
     [] [] [] [] =
   (Inr (PyDict [(''data'', PyDict [(''total_hits'', PyInt 0), (''num_pages'', PyInt 0)])]), [])"
  by (simp add: get_grants_transactions_def build_query_params_def add_year_def http_no_rows_def
      Let_def)

theorem fetch_grants_page_without_rows_witness:
  "(1::int) \<le> 1 \<and> (1::int) \<le> 2 \<and>
   fst (get_grants_transactions http_no_rows ''key'' 1 (Tuple2 None None) (Tuple2 None None)
          [] [] [] []) =
     Inr (PyDict [(''data'', PyDict [(''total_hits'', PyInt 0), (''num_pages'', PyInt 0)])]) \<and>
   py_getitem (PyDict [(''data'', PyDict [(''total_hits'', PyInt 0), (''num_pages'', PyInt 0)])])
     ''data'' = Inr (PyDict [(''total_hits'', PyInt 0), (''num_pages'', PyInt 0)]) \<and>
   py_contains ''rows'' (PyDict [(''total_hits'', PyInt 0), (''num_pages'', PyInt 0)]) =
     Inr False \<and>
   fetch_grants http_no_rows ''key'' 2 (Tuple2 None None) (Tuple2 None None) [] [] [] [] =
     \<lparr>all_grants = [], log = [NoGrantsOnPage 1, NoGrantsOnPage 2], requested = [1, 2]\<rparr>"
proof -
  let ?get = "page_fetcher http_no_rows ''key'' (Tuple2 None None) (Tuple2 None None)
                [] [] [] []"
  let ?data = "PyDict [(''total_hits'', PyInt 0), (''num_pages'', PyInt 0)]"
  have h1: "(1::int) \<le> 1" and h2: "(1::int) \<le> 2"
    by simp_all
  have h3: "\<forall>p\<in>{1..<1}. page_ok ?get p"
    by simp
  have h4: "fst (?get 1) = Inr (PyDict [(''data'', ?data)])"
    by (simp add: get_no_rows)
  have h5: "py_getitem (PyDict [(''data'', ?data)]) ''data'' = Inr ?data"
    by simp
  have h6: "py_contains ''rows'' ?data = Inr False"
    by simp
  have none: "page_outcome (Inr (PyDict [(''data'', ?data)])) = Inr None"
    by (simp add: page_outcome_def page_rows_def)
  have zero: "[1..1 - 1] = ([]::int list)" and one: "[1..1] = [1::int]"
    and rest: "[1 + 1..2] = [2::int]" and none': "[2 + 1..2] = ([]::int list)"
    by (simp_all add: upto.simps)
  show ?thesis
    using h1 h2 h3 h4 h5 h6 fetch_grants_page_without_rows[OF h1 h2 h3 h4 h5 h6]
    by (simp add: zero one rest none get_no_rows Let_def)
qed

section \<open>Properties of the files written\<close>

lemma json_value_id: "tuple_free v \<Longrightarrow> json_value v = v"
proof (induction v rule: json_value.induct)
  case (1 xs)
  then show ?case by (simp add: map_idI)
next
  case (2 xs)
  then show ?case by simp
next
  case (3 d)
  have "map (map_prod id json_value) d = map id d"
  proof (rule map_cong[OF refl])
    fix kv assume "kv \<in> set d"
    with 3 show "map_prod id json_value kv = id kv"
      by (cases kv) auto
  qed
  then show ?case by simp
qed simp_all

lemma open_w_dump_files:
  assumes "writable fs path"
  shows "\<exists>fs'. open_w_dump fs path obj indent = Inr fs' \<and>
          files fs' path = Some (JsonText (json_value obj) indent) \<and>
          (\<forall>other. other \<noteq> path \<longrightarrow> files fs' other = files fs other) \<and>
          writable fs' = writable fs"
  using assms by (simp add: open_w_dump_def)

subsection \<open>The output file\<close>

text \<open>
  Claim C8. \<open>save_grants_to_file(grants, prefix, start, end)\<close> writes the file named
  \<open>{prefix}_pages_{start}-{end}.json\<close>, and its content is what \<open>json.dump\<close> writes
  for the object \<open>{"grants": grants}\<close> with an indentation of 2; no other file changes.
  With prefix \<open>foo\<close> and pages 1 to 5 the file is \<open>foo_pages_1-5.json\<close>.
\<close>

theorem save_grants_to_file_named_json:
  assumes "writable fs (prefix @ ''_pages_'' @ str_int page_start @ ''-'' @ str_int page_end
                         @ ''.json'')"
    and "\<forall>g\<in>set grants. tuple_free g"
  shows "\<exists>fs'. save_grants_to_file fs grants prefix page_start page_end = Inr fs' \<and>
          files fs' (prefix @ ''_pages_'' @ str_int page_start @ ''-'' @ str_int page_end
                      @ ''.json'') =
            Some (JsonText (PyDict [(''grants'', PyList grants)]) 2) \<and>
          (\<forall>other. other \<noteq> prefix @ ''_pages_'' @ str_int page_start @ ''-''
                               @ str_int page_end @ ''.json'' \<longrightarrow>
                   files fs' other = files fs other)"
proof -
  let ?name = "prefix @ ''_pages_'' @ str_int page_start @ ''-'' @ str_int page_end @ ''.json''"
  let ?obj = "PyDict [(''grants'', PyList grants)]"
  have jv: "json_value ?obj = ?obj"
    by (rule json_value_id) (simp add: assms(2))
  from open_w_dump_files[OF assms(1), of ?obj 2] obtain fs'
    where a: "open_w_dump fs ?name ?obj 2 = Inr fs'"
      and b: "files fs' ?name = Some (JsonText (json_value ?obj) 2)"
      and c: "\<forall>other. other \<noteq> ?name \<longrightarrow> files fs' other = files fs other"
    by blast
  show ?thesis
    unfolding save_grants_to_file_def output_file_name_def Let_def
    using a b c unfolding jv by blast
qed

theorem save_grants_to_file_named_json_witness:
  "writable empty_fs (''foo'' @ ''_pages_'' @ str_int 1 @ ''-'' @ str_int 5 @ ''.json'') \<and>
   tuple_free (PyDict [(''id'', PyInt 17)]) \<and>
   ''foo'' @ ''_pages_'' @ str_int 1 @ ''-'' @ str_int 5 @ ''.json'' = ''foo_pages_1-5.json'' \<and>
   (\<exists>fs'. save_grants_to_file empty_fs [PyDict [(''id'', PyInt 17)]] ''foo'' 1 5 = Inr fs' \<and>
          files fs' ''foo_pages_1-5.json'' =
            Some (JsonText (PyDict [(''grants'', PyList [PyDict [(''id'', PyInt 17)]])]) 2))"
proof -
  have n: "''foo'' @ ''_pages_'' @ str_int 1 @ ''-'' @ str_int 5 @ ''.json'' = ''foo_pages_1-5.json''"
    by code_simp
  have h1: "writable empty_fs (''foo'' @ ''_pages_'' @ str_int 1 @ ''-'' @ str_int 5 @ ''.json'')"
    by (simp add: empty_fs_def)
  have h2: "\<forall>g\<in>set [PyDict [(''id'', PyInt 17)]]. tuple_free g"
    by simp
  show ?thesis
    using h1 h2 save_grants_to_file_named_json[OF h1 h2] unfolding n by auto
qed

subsection \<open>Fetching additional pages\<close>

text \<open>
  Claim C1. \<open>fetch_grants\<close> has no start page: it asks for the pages \<open>1, ..., num_pages\<close>.
  After a first fetch of 1 page out of 5, the continuation with 2 additional pages asks the
  server for pages 1 and 2 again, not for pages 2 and 3, and saves the first page's rows
  twice, with the second page's, under the name \<open>foo_pages_2-3.json\<close>.
\<close>

theorem additional_pages_start_again_at_page_1:
  "fst (main_fetch http_echo ''key'' empty_fs (initial_search_state\<lparr>output_prefix := ''foo''\<rparr>) 1) =
     \<lparr>all_grants = [PyStr (page_url ''1'')], log = [], requested = [1]\<rparr> \<and>
   fst (main_fetch_more http_echo ''key'' empty_fs
          (initial_search_state\<lparr>output_prefix := ''foo''\<rparr>) [PyStr (page_url ''1'')] 1 5 2) =
     \<lparr>all_grants = [PyStr (page_url ''1''), PyStr (page_url ''2'')], log = [],
      requested = [1, 2]\<rparr> \<and>
   (case snd (snd (main_fetch_more http_echo ''key'' empty_fs
                     (initial_search_state\<lparr>output_prefix := ''foo''\<rparr>)
                     [PyStr (page_url ''1'')] 1 5 2)) of
      Inl e \<Rightarrow> None
    | Inr fs \<Rightarrow> files fs ''foo_pages_2-3.json'') =
     Some (JsonText (PyDict [(''grants'', PyList [PyStr (page_url ''1''), PyStr (page_url ''1''),
                                                  PyStr (page_url ''2'')])]) 2)"
  by code_simp

subsection \<open>Saved searches\<close>

text \<open>
  Claim C6. Saving the initial search parameters as \<open>myname\<close> and loading \<open>myname\<close>
  gives a dictionary whose \<open>year_range\<close> and \<open>dollar_range\<close> are lists where the
  saved ones were tuples. The builder tells them apart: it returns the fixed parameters
  for the saved year range \<open>(None, None)\<close> and raises \<open>TypeError\<close> for the loaded
  \<open>[None, None]\<close>.
\<close>

theorem saved_search_comes_back_with_lists:
  "search_config_dict initial_search_state =
     PyDict [(''year_range'', PyTuple [PyNone, PyNone]),
             (''dollar_range'', PyTuple [PyNone, PyNone]),
             (''subjects'', PyList []), (''populations'', PyList []), (''locations'', PyList []),
             (''support_strategies'', PyList []), (''output_prefix'', PyStr [])] \<and>
   (case save_search_config empty_fs (search_config_dict initial_search_state) ''myname'' of
      Inl e \<Rightarrow> Inl e
    | Inr fs \<Rightarrow> load_search_config fs ''myname'') =
     Inr (PyDict [(''year_range'', PyList [PyNone, PyNone]),
                  (''dollar_range'', PyList [PyNone, PyNone]),
                  (''subjects'', PyList []), (''populations'', PyList []),
                  (''locations'', PyList []), (''support_strategies'', PyList []),
                  (''output_prefix'', PyStr [])]) \<and>
   py_range_arg (PyTuple [PyNone, PyNone]) = Some (Tuple2 None None) \<and>
   py_range_arg (PyList [PyNone, PyNone]) = Some (List2 None None) \<and>
   build_query_params 1 (Tuple2 None None) (Tuple2 None None) [] [] [] [] = Inr (base_params 1) \<and>
   build_query_params 1 (List2 None None) (List2 None None) [] [] [] [] = Inl TypeError"
  by code_simp

end
